theory Spec2Isabelle
  imports Main "HOL-Library.Sublist"
begin

section \<open>Session helpers of dicomweb-client (session_utils.py)\<close>

text \<open>
  The module builds and configures \<open>requests.Session\<close> objects. Sessions are mutable
  Python objects, so they live in a store addressed by references; every function of
  the module is a state transformer that returns either the raised exception or its
  result, together with the store it leaves behind. Calls into the collaborators
  (\<open>os.path\<close>, \<open>logging\<close>, \<open>requests\<close>, \<open>google.auth\<close>) are recorded, in order, in a
  trace, so that "is never called" is a statement about the trace.
\<close>

subsection \<open>Exceptions\<close>

datatype error =
    OSError string
  | ImportError string
  | DefaultCredentialsError string

subsection \<open>Sessions and the store\<close>

type_synonym ref = nat

datatype 'a auth_value =
    AuthNone
  | AuthPair string string
  | AuthObject 'a

datatype verify_value =
    VerifyBool bool
  | VerifyPath string

text \<open>
  The attributes of a session this module reads or writes. \<open>credentials\<close> is set on a
  \<open>google.auth.transport.requests.AuthorizedSession\<close> only; \<open>others\<close> stands for the
  remaining attributes of \<open>requests.Session\<close> (headers, proxies, hooks, adapters, ...).
\<close>

record ('a, 'c, 'o) session =
  auth :: "'a auth_value"
  verify :: verify_value
  cert :: "string option"
  credentials :: "'c option"
  others :: 'o

datatype 'c call =
    Call_debug string
  | Call_expandvars string
  | Call_expanduser string
  | Call_exists string
  | Call_import string
  | Call_Session ref
  | Call_auth_default "string list"
  | Call_AuthorizedSession 'c ref

record ('a, 'c, 'o) state =
  heap :: "ref \<Rightarrow> ('a, 'c, 'o) session"
  next_ref :: ref
  trace :: "'c call list"

text \<open>
  What the module reads from its surroundings: the process environment, the password
  database, the filesystem, the installed modules, the ambient credential discovery of
  \<open>google.auth.default\<close> (credentials and project id, or the exception it raises), and the
  attributes a freshly constructed session starts with.
\<close>

record ('c, 'o) env =
  environ :: "string \<Rightarrow> string option"
  pw_dir_uid :: "string option"
  pw_dir_name :: "string \<Rightarrow> string option"
  path_exists :: "string \<Rightarrow> bool"
  importable :: "string \<Rightarrow> bool"
  auth_default :: "string list \<Rightarrow> error + ('c \<times> string option)"
  session_others :: 'o
  authorized_others :: 'o

subsection \<open>Computations that may raise\<close>

type_synonym ('x, 's) prog = "'s \<Rightarrow> (error + 'x) \<times> 's"

definition return :: "'x \<Rightarrow> ('x, 's) prog" where
  "return x = (\<lambda>st. (Inr x, st))"

definition raise :: "error \<Rightarrow> ('x, 's) prog" where
  "raise e = (\<lambda>st. (Inl e, st))"

definition bind :: "('x, 's) prog \<Rightarrow> ('x \<Rightarrow> ('y, 's) prog) \<Rightarrow> ('y, 's) prog" where
  "bind m f = (\<lambda>st. case m st of
                      (Inl e, st') \<Rightarrow> (Inl e, st')
                    | (Inr x, st') \<Rightarrow> f x st')"

text \<open>\<open>try: body except ImportError: handler\<close>; every other exception passes through.\<close>

definition try_except_ImportError ::
  "('x, 's) prog \<Rightarrow> ('x, 's) prog \<Rightarrow> ('x, 's) prog" where
  "try_except_ImportError body handler = (\<lambda>st. case body st of
      (Inl (ImportError m), st') \<Rightarrow> handler st'
    | (r, st') \<Rightarrow> (r, st'))"

definition record_call :: "'c call \<Rightarrow> ('a, 'c, 'o) state \<Rightarrow> ('a, 'c, 'o) state" where
  "record_call c st = st\<lparr>trace := trace st @ [c]\<rparr>"

subsection \<open>\<open>os.path\<close> on POSIX\<close>

text \<open>
  \<open>posixpath.expandvars\<close> replaces \<open>$name\<close> and \<open>${name}\<close> by the value of the environment
  variable, scanning from the left; a name is a non-empty run of ASCII letters, digits
  and underscores, or anything up to the next closing brace. Unknown variables and a
  dollar sign that starts no reference are left as they are, and an inserted value is
  not scanned again.
\<close>

definition is_word_char :: "char \<Rightarrow> bool" where
  "is_word_char c \<longleftrightarrow>
     c \<in> set ''abcdefghijklmnopqrstuvwxyzABCDEFGHIJKLMNOPQRSTUVWXYZ0123456789_''"

definition not_rbrace :: "char \<Rightarrow> bool" where
  "not_rbrace c \<longleftrightarrow> c \<noteq> CHR ''}''"

text \<open>
  The reference that starts right after a dollar sign, if any: the matched text, the
  variable name, and the rest of the path behind the match.
\<close>

definition match_var :: "string \<Rightarrow> (string \<times> string \<times> string) option" where
  "match_var cs =
     (case cs of
        [] \<Rightarrow> None
      | c # cs' \<Rightarrow>
          if is_word_char c then
            Some (takeWhile is_word_char cs, takeWhile is_word_char cs,
                  dropWhile is_word_char cs)
          else if c = CHR ''{'' then
            (case dropWhile not_rbrace cs' of
               [] \<Rightarrow> None
             | b # rest \<Rightarrow>
                 Some (c # takeWhile not_rbrace cs' @ [b], takeWhile not_rbrace cs', rest))
          else None)"

function expandvars_scan :: "(string \<Rightarrow> string option) \<Rightarrow> string \<Rightarrow> string" where
  "expandvars_scan vars [] = []"
| "expandvars_scan vars (c # cs) =
     (if c = CHR ''$'' then
        (case match_var cs of
           None \<Rightarrow> c # expandvars_scan vars cs
         | Some (matched, name, rest) \<Rightarrow>
             (case vars name of
                None \<Rightarrow> c # matched @ expandvars_scan vars rest
              | Some v \<Rightarrow> v @ expandvars_scan vars rest))
      else c # expandvars_scan vars cs)"
  by pat_completeness auto
termination
proof -
  have shorter: "length rest \<le> length cs"
    if m: "match_var cs = Some (matched, name, rest)" for cs matched name rest
  proof (cases cs)
    case Nil
    with m show ?thesis by (simp add: match_var_def)
  next
    case (Cons c cs')
    show ?thesis
    proof (cases "is_word_char c")
      case True
      with m Cons have "rest = dropWhile is_word_char cs"
        by (simp add: match_var_def)
      then show ?thesis by (simp add: length_dropWhile_le)
    next
      case False
      with m Cons obtain b where b: "dropWhile not_rbrace cs' = b # rest"
        by (auto simp: match_var_def split: if_splits list.splits)
      have "length (dropWhile not_rbrace cs') \<le> length cs'"
        by (rule length_dropWhile_le)
      with b Cons show ?thesis by simp
    qed
  qed
  show ?thesis
    by (relation "measure (\<lambda>(vars, cs). length cs)") (auto dest: shorter)
qed

definition expandvars :: "('c, 'o) env \<Rightarrow> string \<Rightarrow> string" where
  "expandvars env path = expandvars_scan (environ env) path"

text \<open>
  \<open>posixpath.expanduser\<close>: a leading \<open>~\<close> is replaced by \<open>$HOME\<close> (or, when \<open>HOME\<close> is
  unset, by the current user's entry in the password database), a leading \<open>~name\<close> by
  that user's home directory. The path is returned unchanged when it has no leading
  tilde or the home directory is unknown.
\<close>

definition is_sep :: "char \<Rightarrow> bool" where
  "is_sep c \<longleftrightarrow> c = CHR ''/''"

definition not_sep :: "char \<Rightarrow> bool" where
  "not_sep c \<longleftrightarrow> c \<noteq> CHR ''/''"

definition rstrip_sep :: "string \<Rightarrow> string" where
  "rstrip_sep s = rev (dropWhile is_sep (rev s))"

definition userhome :: "('c, 'o) env \<Rightarrow> string \<Rightarrow> string option" where
  "userhome env name =
     (if name = [] then
        (case environ env ''HOME'' of
           None \<Rightarrow> pw_dir_uid env
         | Some h \<Rightarrow> Some h)
      else pw_dir_name env name)"

definition expanduser :: "('c, 'o) env \<Rightarrow> string \<Rightarrow> string" where
  "expanduser env path =
     (case path of
        [] \<Rightarrow> path
      | c # cs \<Rightarrow>
          if c \<noteq> CHR ''~'' then path
          else
            (case userhome env (takeWhile not_sep cs) of
               None \<Rightarrow> path
             | Some home \<Rightarrow>
                 (let r = rstrip_sep home @ dropWhile not_sep cs
                  in if r = [] then ''/'' else r)))"

text \<open>\<open>posixpath.isabs\<close>: a path is absolute when it starts with a slash.\<close>

definition isabs :: "string \<Rightarrow> bool" where
  "isabs path = (case path of [] \<Rightarrow> False | c # cs \<Rightarrow> c = CHR ''/'')"

subsection \<open>The collaborators, as recorded calls\<close>

definition os_path_expandvars ::
  "('c, 'o) env \<Rightarrow> string \<Rightarrow> (string, ('a, 'c, 'o) state) prog" where
  "os_path_expandvars env path =
     (\<lambda>st. (Inr (expandvars env path), record_call (Call_expandvars path) st))"

definition os_path_expanduser ::
  "('c, 'o) env \<Rightarrow> string \<Rightarrow> (string, ('a, 'c, 'o) state) prog" where
  "os_path_expanduser env path =
     (\<lambda>st. (Inr (expanduser env path), record_call (Call_expanduser path) st))"

definition os_path_exists ::
  "('c, 'o) env \<Rightarrow> string \<Rightarrow> (bool, ('a, 'c, 'o) state) prog" where
  "os_path_exists env path =
     (\<lambda>st. (Inr (path_exists env path), record_call (Call_exists path) st))"

definition logger_debug :: "string \<Rightarrow> (unit, ('a, 'c, 'o) state) prog" where
  "logger_debug msg = (\<lambda>st. (Inr (), record_call (Call_debug msg) st))"

text \<open>
  An \<open>import\<close> statement: it raises \<open>ImportError\<close> when the module is not installed.
\<close>

definition import_module ::
  "('c, 'o) env \<Rightarrow> string \<Rightarrow> (unit, ('a, 'c, 'o) state) prog" where
  "import_module env name =
     (\<lambda>st. (if importable env name then Inr ()
                else Inl (ImportError (''No module named '' @ name)),
               record_call (Call_import name) st))"

definition google_auth_default ::
  "('c, 'o) env \<Rightarrow> string list \<Rightarrow> ('c \<times> string option, ('a, 'c, 'o) state) prog" where
  "google_auth_default env scopes =
     (\<lambda>st. (auth_default env scopes, record_call (Call_auth_default scopes) st))"

text \<open>
  \<open>requests.Session()\<close> allocates a session with the defaults of the library: no
  authentication, server certificates verified, no client certificate.
\<close>

definition Session_init :: "('c, 'o) env \<Rightarrow> ('a, 'c, 'o) session" where
  "Session_init env =
     \<lparr>auth = AuthNone, verify = VerifyBool True, cert = None, credentials = None,
      others = session_others env\<rparr>"

definition requests_Session ::
  "('c, 'o) env \<Rightarrow> (ref, ('a, 'c, 'o) state) prog" where
  "requests_Session env =
     (\<lambda>st. (Inr (next_ref st),
               record_call (Call_Session (next_ref st))
                 (st\<lparr>heap := (heap st)(next_ref st := Session_init env),
                     next_ref := Suc (next_ref st)\<rparr>)))"

text \<open>
  \<open>AuthorizedSession(credentials)\<close> is a \<open>requests.Session\<close> that also keeps the
  credentials it signs requests with.
\<close>

definition AuthorizedSession_init ::
  "('c, 'o) env \<Rightarrow> 'c \<Rightarrow> ('a, 'c, 'o) session" where
  "AuthorizedSession_init env creds =
     \<lparr>auth = AuthNone, verify = VerifyBool True, cert = None, credentials = Some creds,
      others = authorized_others env\<rparr>"

definition google_requests_AuthorizedSession ::
  "('c, 'o) env \<Rightarrow> 'c \<Rightarrow> (ref, ('a, 'c, 'o) state) prog" where
  "google_requests_AuthorizedSession env creds =
     (\<lambda>st. (Inr (next_ref st),
               record_call (Call_AuthorizedSession creds (next_ref st))
                 (st\<lparr>heap := (heap st)(next_ref st := AuthorizedSession_init env creds),
                     next_ref := Suc (next_ref st)\<rparr>)))"

text \<open>Attribute assignments \<open>session.auth = v\<close>, \<open>session.verify = v\<close>, \<open>session.cert = v\<close>.\<close>

definition set_auth :: "ref \<Rightarrow> 'a auth_value \<Rightarrow> (unit, ('a, 'c, 'o) state) prog" where
  "set_auth r v =
     (\<lambda>st. (Inr (), st\<lparr>heap := (heap st)(r := (heap st r)\<lparr>auth := v\<rparr>)\<rparr>))"

definition set_verify :: "ref \<Rightarrow> verify_value \<Rightarrow> (unit, ('a, 'c, 'o) state) prog" where
  "set_verify r v =
     (\<lambda>st. (Inr (), st\<lparr>heap := (heap st)(r := (heap st r)\<lparr>verify := v\<rparr>)\<rparr>))"

definition set_cert :: "ref \<Rightarrow> string option \<Rightarrow> (unit, ('a, 'c, 'o) state) prog" where
  "set_cert r v =
     (\<lambda>st. (Inr (), st\<lparr>heap := (heap st)(r := (heap st r)\<lparr>cert := v\<rparr>)\<rparr>))"

subsection \<open>The functions of the module\<close>

definition create_session_from_auth ::
  "('c, 'o) env \<Rightarrow> 'a auth_value \<Rightarrow> (ref, ('a, 'c, 'o) state) prog" where
  "create_session_from_auth env a =
     bind (logger_debug ''initialize HTTP session'') (\<lambda>_.
     bind (requests_Session env) (\<lambda>session.
     bind (set_auth session a) (\<lambda>_.
     return session)))"

definition create_session_from_user_pass ::
  "('c, 'o) env \<Rightarrow> string \<Rightarrow> string \<Rightarrow> (ref, ('a, 'c, 'o) state) prog" where
  "create_session_from_user_pass env username password =
     bind (logger_debug ''initialize HTTP session'') (\<lambda>_.
     bind (requests_Session env) (\<lambda>session.
     bind (set_auth session (AuthPair username password)) (\<lambda>_.
     return session)))"

definition add_certs_to_session ::
  "('c, 'o) env \<Rightarrow> ref \<Rightarrow> string option \<Rightarrow> string option \<Rightarrow>
     (ref, ('a, 'c, 'o) state) prog" where
  "add_certs_to_session env session ca_bundle cert_path =
     bind (case ca_bundle of
             None \<Rightarrow> return ()
           | Some p \<Rightarrow>
               bind (os_path_expandvars env p) (\<lambda>p'.
               bind (os_path_expanduser env p') (\<lambda>ca_bundle'.
               bind (os_path_exists env ca_bundle') (\<lambda>found.
               if \<not> found then
                 raise (OSError (''CA bundle file does not exist: '' @ ca_bundle'))
               else
                 bind (logger_debug (''use CA bundle file: '' @ ca_bundle')) (\<lambda>_.
                 set_verify session (VerifyPath ca_bundle')))))) (\<lambda>_.
     bind (case cert_path of
             None \<Rightarrow> return ()
           | Some q \<Rightarrow>
               bind (os_path_expandvars env q) (\<lambda>q'.
               bind (os_path_expanduser env q') (\<lambda>cert'.
               bind (os_path_exists env cert') (\<lambda>found.
               if \<not> found then
                 raise (OSError (''Certificate file does not exist: '' @ cert'))
               else
                 bind (logger_debug (''use certificate file: '' @ cert')) (\<lambda>_.
                 set_cert session (Some cert')))))) (\<lambda>_.
     return session))"

definition gcp_scope :: string where
  "gcp_scope = ''https://www.googleapis.com/auth/cloud-platform''"

definition gcp_import_message :: string where
  "gcp_import_message =
     ''The dicomweb-client package needs to be installed with the '' @
     [CHR 0x22] @ ''gcp'' @ [CHR 0x22] @ '' extra requirements to support interaction with the '' @
     ''Google Cloud Healthcare API: pip install dicomweb-client[gcp]''"

definition create_session_from_gcp_credentials ::
  "('c, 'o) env \<Rightarrow> 'c option \<Rightarrow> (ref, ('a, 'c, 'o) state) prog" where
  "create_session_from_gcp_credentials env google_credentials =
     bind (try_except_ImportError
             (bind (import_module env ''google.auth.transport.requests'') (\<lambda>_.
              case google_credentials of
                None \<Rightarrow>
                  bind (import_module env ''google.auth'') (\<lambda>_.
                  bind (google_auth_default env [gcp_scope]) (\<lambda>(creds, project).
                  return creds))
              | Some creds \<Rightarrow> return creds))
             (raise (ImportError gcp_import_message))) (\<lambda>creds.
     bind (logger_debug ''initialize Google AuthorizedSession'') (\<lambda>_.
     google_requests_AuthorizedSession env creds))"

text \<open>The path both arguments of \<open>add_certs_to_session\<close> are resolved to.\<close>

definition resolve :: "('c, 'o) env \<Rightarrow> string \<Rightarrow> string" where
  "resolve env path = expanduser env (expandvars env path)"

text \<open>
  An optional path argument is missing when it is given and the path it resolves to does
  not exist.
\<close>

definition missing :: "('c, 'o) env \<Rightarrow> string option \<Rightarrow> bool" where
  "missing env arg =
     (case arg of
        None \<Rightarrow> False
      | Some p \<Rightarrow> \<not> path_exists env (resolve env p))"

text \<open>
  A message includes an absolute path exactly when a slash occurs in it: every absolute
  path starts with one, and a slash alone is an absolute path.
\<close>

definition includes_absolute_path :: "string \<Rightarrow> bool" where
  "includes_absolute_path msg \<longleftrightarrow> CHR ''/'' \<in> set msg"

subsection \<open>A concrete environment and store\<close>

text \<open>
  A user with home directory \<open>/home/u\<close>, \<open>CERTDIR=/etc/certs\<close>, four existing files (two of
  them relative to the working directory), the Google modules installed, and one session
  with the defaults of the library at reference 0.
\<close>

definition example_env :: "(string, unit) env" where
  "example_env =
     \<lparr>environ = [''HOME'' \<mapsto> ''/home/u'', ''CERTDIR'' \<mapsto> ''/etc/certs''],
      pw_dir_uid = Some ''/home/u'',
      pw_dir_name = Map.empty,
      path_exists = (\<lambda>p. p \<in> set [''/home/u/certs/ca.pem'', ''/etc/certs/ca.pem'',
                                    ''ca.pem'', ''client.pem'']),
      importable = (\<lambda>m. m \<in> set [''google.auth'', ''google.auth.transport.requests'']),
      auth_default = (\<lambda>scopes. Inr (''ambient'', Some ''project'')),
      session_others = (),
      authorized_others = ()\<rparr>"

definition example_state :: "(unit, string, unit) state" where
  "example_state = \<lparr>heap = (\<lambda>r. Session_init example_env), next_ref = 1, trace = []\<rparr>"

text \<open>
  A store whose session at reference 0 has been configured before: it carries credentials,
  a CA bundle and a client certificate of its own.
\<close>

definition configured_state :: "(unit, string, unit) state" where
  "configured_state =
     \<lparr>heap = (\<lambda>r. if r = 0 then
                     \<lparr>auth = AuthPair ''user'' ''secret'', verify = VerifyPath ''/old/ca.pem'',
                      cert = Some ''/old/client.pem'', credentials = None, others = ()\<rparr>
                   else Session_init example_env),
      next_ref = 2,
      trace = []\<rparr>"

text \<open>
  The same environment on a machine without ambient Google credentials:
  \<open>google.auth.default\<close> raises instead of returning credentials.
\<close>

definition no_credentials_env :: "(string, unit) env" where
  "no_credentials_env =
     example_env\<lparr>auth_default :=
       (\<lambda>scopes. Inl (DefaultCredentialsError ''no default credentials''))\<rparr>"

section \<open>Properties\<close>

subsection \<open>Unfolding the computations\<close>

lemmas prog_defs = bind_def return_def raise_def record_call_def
  os_path_expandvars_def os_path_expanduser_def os_path_exists_def logger_debug_def
  set_auth_def set_verify_def set_cert_def requests_Session_def

lemmas gcp_defs = create_session_from_gcp_credentials_def try_except_ImportError_def
  import_module_def google_auth_default_def google_requests_AuthorizedSession_def
  AuthorizedSession_init_def gcp_scope_def

lemmas example_defs = example_env_def example_state_def Session_init_def resolve_def
  expandvars_def expanduser_def userhome_def match_var_def is_word_char_def not_rbrace_def
  not_sep_def is_sep_def rstrip_sep_def

lemma includes_absolute_path_iff:
  "includes_absolute_path msg \<longleftrightarrow> (\<exists>ap. isabs ap \<and> sublist ap msg)"
proof
  assume "includes_absolute_path msg"
  then obtain ps ss where "msg = ps @ [CHR ''/''] @ ss"
    by (auto simp: includes_absolute_path_def dest: split_list)
  then have "sublist [CHR ''/''] msg" by (auto simp: sublist_def)
  moreover have "isabs [CHR ''/'']" by (simp add: isabs_def)
  ultimately show "\<exists>ap. isabs ap \<and> sublist ap msg" by blast
next
  assume "\<exists>ap. isabs ap \<and> sublist ap msg"
  then obtain ap where a: "isabs ap" and s: "sublist ap msg" by blast
  from a obtain cs where "ap = CHR ''/'' # cs"
    by (cases ap) (auto simp: isabs_def)
  with s show "includes_absolute_path msg"
    by (auto simp: includes_absolute_path_def sublist_def)
qed

subsection \<open>\<open>add_certs_to_session\<close>, case by case\<close>

lemma add_certs_absent: "add_certs_to_session env r None None st = (Inr r, st)"
  by (simp add: add_certs_to_session_def prog_defs)

lemma add_certs_ca_missing:
  assumes "\<not> path_exists env (resolve env p)"
  shows "add_certs_to_session env r (Some p) c st =
    (Inl (OSError (''CA bundle file does not exist: '' @ resolve env p)),
     st\<lparr>trace := trace st @ [Call_expandvars p, Call_expanduser (expandvars env p),
                              Call_exists (resolve env p)]\<rparr>)"
  using assms by (simp add: add_certs_to_session_def prog_defs resolve_def)

lemma add_certs_ca_only:
  assumes "path_exists env (resolve env p)"
  shows "add_certs_to_session env r (Some p) None st =
    (Inr r,
     st\<lparr>heap := (heap st)(r := (heap st r)\<lparr>verify := VerifyPath (resolve env p)\<rparr>),
        trace := trace st @ [Call_expandvars p, Call_expanduser (expandvars env p),
                              Call_exists (resolve env p),
                              Call_debug (''use CA bundle file: '' @ resolve env p)]\<rparr>)"
  using assms by (simp add: add_certs_to_session_def prog_defs resolve_def)

lemma add_certs_cert_only:
  assumes "path_exists env (resolve env q)"
  shows "add_certs_to_session env r None (Some q) st =
    (Inr r,
     st\<lparr>heap := (heap st)(r := (heap st r)\<lparr>cert := Some (resolve env q)\<rparr>),
        trace := trace st @ [Call_expandvars q, Call_expanduser (expandvars env q),
                              Call_exists (resolve env q),
                              Call_debug (''use certificate file: '' @ resolve env q)]\<rparr>)"
  using assms by (simp add: add_certs_to_session_def prog_defs resolve_def)

lemma add_certs_cert_only_missing:
  assumes "\<not> path_exists env (resolve env q)"
  shows "add_certs_to_session env r None (Some q) st =
    (Inl (OSError (''Certificate file does not exist: '' @ resolve env q)),
     st\<lparr>trace := trace st @ [Call_expandvars q, Call_expanduser (expandvars env q),
                              Call_exists (resolve env q)]\<rparr>)"
  using assms by (simp add: add_certs_to_session_def prog_defs resolve_def)

lemma add_certs_both:
  assumes "path_exists env (resolve env p)" "path_exists env (resolve env q)"
  shows "add_certs_to_session env r (Some p) (Some q) st =
    (Inr r,
     st\<lparr>heap := (heap st)(r := (heap st r)\<lparr>verify := VerifyPath (resolve env p),
                                             cert := Some (resolve env q)\<rparr>),
        trace := trace st @ [Call_expandvars p, Call_expanduser (expandvars env p),
                              Call_exists (resolve env p),
                              Call_debug (''use CA bundle file: '' @ resolve env p),
                              Call_expandvars q, Call_expanduser (expandvars env q),
                              Call_exists (resolve env q),
                              Call_debug (''use certificate file: '' @ resolve env q)]\<rparr>)"
  using assms by (simp add: add_certs_to_session_def prog_defs resolve_def)

lemma add_certs_cert_missing:
  assumes "path_exists env (resolve env p)" "\<not> path_exists env (resolve env q)"
  shows "add_certs_to_session env r (Some p) (Some q) st =
    (Inl (OSError (''Certificate file does not exist: '' @ resolve env q)),
     st\<lparr>heap := (heap st)(r := (heap st r)\<lparr>verify := VerifyPath (resolve env p)\<rparr>),
        trace := trace st @ [Call_expandvars p, Call_expanduser (expandvars env p),
                              Call_exists (resolve env p),
                              Call_debug (''use CA bundle file: '' @ resolve env p),
                              Call_expandvars q, Call_expanduser (expandvars env q),
                              Call_exists (resolve env q)]\<rparr>)"
  using assms by (simp add: add_certs_to_session_def prog_defs resolve_def)

subsection \<open>Certificates\<close>

text \<open>
  C1: if the CA bundle is given and the path it resolves to does not exist, the call raises
  right after the existence check of the CA bundle, whatever the certificate argument is:
  the only collaborator calls are the two expansions and the check of the CA bundle path,
  no session in the store changes, and in particular the \<open>cert\<close> attribute of the session
  is what it was.
\<close>

theorem ca_bundle_missing_fails_first:
  assumes "\<not> path_exists env (resolve env p)"
  shows "add_certs_to_session env r (Some p) c st =
           (Inl (OSError (''CA bundle file does not exist: '' @ resolve env p)),
            st\<lparr>trace := trace st @ [Call_expandvars p, Call_expanduser (expandvars env p),
                                     Call_exists (resolve env p)]\<rparr>)
         \<and> heap (snd (add_certs_to_session env r (Some p) c st)) = heap st
         \<and> cert (heap (snd (add_certs_to_session env r (Some p) c st)) r) = cert (heap st r)"
  using assms by (simp add: add_certs_ca_missing)

theorem ca_bundle_missing_fails_first_witness:
  "\<not> path_exists example_env (resolve example_env ''missing.pem'')
   \<and> add_certs_to_session example_env 0 (Some ''missing.pem'') (Some ''client.pem'') example_state =
       (Inl (OSError ''CA bundle file does not exist: missing.pem''),
        example_state\<lparr>trace := [Call_expandvars ''missing.pem'', Call_expanduser ''missing.pem'',
                                 Call_exists ''missing.pem'']\<rparr>)"
proof -
  have r: "resolve example_env ''missing.pem'' = ''missing.pem''"
    by (simp add: example_defs)
  have e: "expandvars example_env ''missing.pem'' = ''missing.pem''"
    by (simp add: example_defs)
  have h: "\<not> path_exists example_env (resolve example_env ''missing.pem'')"
    unfolding r by (simp add: example_env_def)
  have t: "trace example_state = []" by (simp add: example_state_def)
  show ?thesis
    using h ca_bundle_missing_fails_first [OF h, of 0 "Some ''client.pem''" example_state]
    by (simp add: r e t)
qed

text \<open>
  C2, as stated, fails: the path in the message is the expanded path, and expansion does not
  make a path absolute. For the relative path \<open>missing.pem\<close> the message is
  \<open>CA bundle file does not exist: missing.pem\<close>, which includes no absolute path at all.
\<close>

theorem missing_path_not_absolute_counterexample:
  "fst (add_certs_to_session example_env 0 (Some ''missing.pem'') None example_state) =
     Inl (OSError ''CA bundle file does not exist: missing.pem'')
   \<and> \<not> path_exists example_env (resolve example_env ''missing.pem'')
   \<and> \<not> isabs (resolve example_env ''missing.pem'')
   \<and> \<not> includes_absolute_path ''CA bundle file does not exist: missing.pem''"
proof -
  have r: "resolve example_env ''missing.pem'' = ''missing.pem''"
    by (simp add: example_defs)
  have h: "\<not> path_exists example_env (resolve example_env ''missing.pem'')"
    unfolding r by (simp add: example_env_def)
  show ?thesis
    using h by (simp add: add_certs_ca_missing r isabs_def includes_absolute_path_def)
qed

text \<open>
  C2, amended: whenever a given path argument resolves to a path that does not exist, the
  call raises \<open>OSError\<close>, and the message ends with the expanded path (environment variables
  and user home expanded, not made absolute) of the first missing file: that of the CA
  bundle if it is missing, otherwise that of the certificate.
\<close>

theorem missing_path_raises_OSError:
  "(\<not> path_exists env (resolve env p) \<longrightarrow>
      fst (add_certs_to_session env r (Some p) c st) =
        Inl (OSError (''CA bundle file does not exist: '' @ resolve env p)))
   \<and> (\<not> missing env ca \<and> \<not> path_exists env (resolve env q) \<longrightarrow>
      fst (add_certs_to_session env r ca (Some q) st) =
        Inl (OSError (''Certificate file does not exist: '' @ resolve env q)))"
proof (intro conjI impI)
  assume "\<not> path_exists env (resolve env p)"
  then show "fst (add_certs_to_session env r (Some p) c st) =
      Inl (OSError (''CA bundle file does not exist: '' @ resolve env p))"
    by (simp add: add_certs_ca_missing)
next
  assume a: "\<not> missing env ca \<and> \<not> path_exists env (resolve env q)"
  show "fst (add_certs_to_session env r ca (Some q) st) =
      Inl (OSError (''Certificate file does not exist: '' @ resolve env q))"
  proof (cases ca)
    case None
    with a show ?thesis by (simp add: add_certs_cert_only_missing)
  next
    case (Some p')
    with a have "path_exists env (resolve env p')" by (simp add: missing_def)
    with a Some show ?thesis by (simp add: add_certs_cert_missing)
  qed
qed

theorem missing_path_raises_OSError_witness:
  "\<not> path_exists example_env (resolve example_env ''$CERTDIR/none.pem'')
   \<and> fst (add_certs_to_session example_env 0 (Some ''$CERTDIR/none.pem'') None example_state) =
       Inl (OSError ''CA bundle file does not exist: /etc/certs/none.pem'')
   \<and> \<not> missing example_env (Some ''ca.pem'')
   \<and> \<not> path_exists example_env (resolve example_env ''~/client.pem'')
   \<and> fst (add_certs_to_session example_env 0 (Some ''ca.pem'') (Some ''~/client.pem'') example_state) =
       Inl (OSError ''Certificate file does not exist: /home/u/client.pem'')"
proof -
  have r1: "resolve example_env ''$CERTDIR/none.pem'' = ''/etc/certs/none.pem''"
    by (simp add: example_defs)
  have r2: "resolve example_env ''~/client.pem'' = ''/home/u/client.pem''"
    by (simp add: example_defs)
  have r3: "resolve example_env ''ca.pem'' = ''ca.pem''"
    by (simp add: example_defs)
  have h1: "\<not> path_exists example_env (resolve example_env ''$CERTDIR/none.pem'')"
    unfolding r1 by (simp add: example_env_def)
  have h2: "\<not> path_exists example_env (resolve example_env ''~/client.pem'')"
    unfolding r2 by (simp add: example_env_def)
  have h3: "\<not> missing example_env (Some ''ca.pem'')"
    unfolding missing_def by (simp add: r3) (simp add: example_env_def)
  show ?thesis
    using h1 h2 h3
      missing_path_raises_OSError [of example_env "''$CERTDIR/none.pem''" 0 None example_state
        "Some ''ca.pem''" "''~/client.pem''"]
    by (simp add: r1 r2)
qed

text \<open>
  C3, as stated, fails: existing relative paths are assigned as they are, not in an absolute
  form.
\<close>

theorem relative_paths_stay_relative_counterexample:
  "path_exists example_env (resolve example_env ''ca.pem'')
   \<and> path_exists example_env (resolve example_env ''client.pem'')
   \<and> verify (heap (snd (add_certs_to_session example_env 0 (Some ''ca.pem'')
                          (Some ''client.pem'') example_state)) 0) = VerifyPath ''ca.pem''
   \<and> cert (heap (snd (add_certs_to_session example_env 0 (Some ''ca.pem'')
                        (Some ''client.pem'') example_state)) 0) = Some ''client.pem''
   \<and> \<not> isabs ''ca.pem'' \<and> \<not> isabs ''client.pem''"
proof -
  have r1: "resolve example_env ''ca.pem'' = ''ca.pem''"
    by (simp add: example_defs)
  have r2: "resolve example_env ''client.pem'' = ''client.pem''"
    by (simp add: example_defs)
  have h1: "path_exists example_env (resolve example_env ''ca.pem'')"
    unfolding r1 by (simp add: example_env_def)
  have h2: "path_exists example_env (resolve example_env ''client.pem'')"
    unfolding r2 by (simp add: example_env_def)
  show ?thesis
    using h1 h2 by (simp add: add_certs_both r1 r2 isabs_def)
qed

text \<open>
  C3, amended: when both paths are given and both resolve to existing paths, the call
  returns the session, with \<open>verify\<close> set to the expanded CA bundle path and \<open>cert\<close> to the
  expanded certificate path (environment variables and user home expanded, not made
  absolute); every other attribute of the session, every other session and the allocation
  counter are unchanged.
\<close>

theorem existing_paths_assigned:
  assumes "path_exists env (resolve env p)" and "path_exists env (resolve env q)"
  shows "add_certs_to_session env r (Some p) (Some q) st =
    (Inr r,
     st\<lparr>heap := (heap st)(r := (heap st r)\<lparr>verify := VerifyPath (resolve env p),
                                             cert := Some (resolve env q)\<rparr>),
        trace := trace st @ [Call_expandvars p, Call_expanduser (expandvars env p),
                              Call_exists (resolve env p),
                              Call_debug (''use CA bundle file: '' @ resolve env p),
                              Call_expandvars q, Call_expanduser (expandvars env q),
                              Call_exists (resolve env q),
                              Call_debug (''use certificate file: '' @ resolve env q)]\<rparr>)"
  using assms by (rule add_certs_both)

theorem existing_paths_assigned_witness:
  "path_exists example_env (resolve example_env ''~/certs/ca.pem'')
   \<and> path_exists example_env (resolve example_env ''client.pem'')
   \<and> fst (add_certs_to_session example_env 0 (Some ''~/certs/ca.pem'') (Some ''client.pem'')
           example_state) = Inr 0
   \<and> heap (snd (add_certs_to_session example_env 0 (Some ''~/certs/ca.pem'')
                   (Some ''client.pem'') example_state)) 0 =
       \<lparr>auth = AuthNone, verify = VerifyPath ''/home/u/certs/ca.pem'',
        cert = Some ''client.pem'', credentials = None, others = ()\<rparr>"
proof -
  have r1: "resolve example_env ''~/certs/ca.pem'' = ''/home/u/certs/ca.pem''"
    by (simp add: example_defs)
  have r2: "resolve example_env ''client.pem'' = ''client.pem''"
    by (simp add: example_defs)
  have h1: "path_exists example_env (resolve example_env ''~/certs/ca.pem'')"
    unfolding r1 by (simp add: example_env_def)
  have h2: "path_exists example_env (resolve example_env ''client.pem'')"
    unfolding r2 by (simp add: example_env_def)
  have s: "heap example_state 0 = Session_init example_env"
    by (simp add: example_state_def)
  show ?thesis
    using h1 h2 existing_paths_assigned [OF h1 h2, of 0 example_state]
    by (simp add: r1 r2 s) (simp add: Session_init_def example_env_def)
qed

text \<open>
  C4: the session is updated in place and the reference returned is the one given: when no
  given path is missing the call returns that reference, a CA bundle that exists is
  written to the \<open>verify\<close> attribute of that session, and a certificate that exists is written
  to its \<open>cert\<close> attribute. With both arguments absent nothing is called and nothing changes.
  An absent argument leaves its attribute (\<open>verify\<close> for the CA bundle, \<open>cert\<close> for the
  certificate) as it was, the other attributes of the session are never changed, no other
  session is touched and none is allocated.
\<close>

theorem add_certs_in_place:
  "add_certs_to_session env r None None st = (Inr r, st)
   \<and> (\<forall>x. fst (add_certs_to_session env r ca c st) = Inr x \<longrightarrow> x = r)
   \<and> (\<forall>r'. r' \<noteq> r \<longrightarrow> heap (snd (add_certs_to_session env r ca c st)) r' = heap st r')
   \<and> next_ref (snd (add_certs_to_session env r ca c st)) = next_ref st
   \<and> (ca = None \<longrightarrow>
        verify (heap (snd (add_certs_to_session env r ca c st)) r) = verify (heap st r))
   \<and> (c = None \<longrightarrow>
        cert (heap (snd (add_certs_to_session env r ca c st)) r) = cert (heap st r))
   \<and> (\<not> missing env ca \<and> \<not> missing env c \<longrightarrow>
        fst (add_certs_to_session env r ca c st) = Inr r)
   \<and> (\<forall>p. ca = Some p \<and> path_exists env (resolve env p) \<longrightarrow>
        verify (heap (snd (add_certs_to_session env r ca c st)) r) =
          VerifyPath (resolve env p))
   \<and> (\<forall>q. c = Some q \<and> \<not> missing env ca \<and> path_exists env (resolve env q) \<longrightarrow>
        cert (heap (snd (add_certs_to_session env r ca c st)) r) = Some (resolve env q))
   \<and> auth (heap (snd (add_certs_to_session env r ca c st)) r) = auth (heap st r)
   \<and> credentials (heap (snd (add_certs_to_session env r ca c st)) r) =
       credentials (heap st r)
   \<and> others (heap (snd (add_certs_to_session env r ca c st)) r) = others (heap st r)"
proof -
  have absent: "add_certs_to_session env r None None st = (Inr r, st)"
    by (rule add_certs_absent)
  have same: "\<forall>x. fst (add_certs_to_session env r ca c st) = Inr x \<longrightarrow> x = r"
    by (auto simp: add_certs_to_session_def prog_defs split: option.splits if_splits)
  have frame: "\<forall>r'. r' \<noteq> r \<longrightarrow>
      heap (snd (add_certs_to_session env r ca c st)) r' = heap st r'"
    by (auto simp: add_certs_to_session_def prog_defs split: option.splits)
  have alloc: "next_ref (snd (add_certs_to_session env r ca c st)) = next_ref st"
    by (auto simp: add_certs_to_session_def prog_defs split: option.splits)
  have v: "ca = None \<longrightarrow>
      verify (heap (snd (add_certs_to_session env r ca c st)) r) = verify (heap st r)"
    by (auto simp: add_certs_to_session_def prog_defs split: option.splits)
  have ct: "c = None \<longrightarrow>
      cert (heap (snd (add_certs_to_session env r ca c st)) r) = cert (heap st r)"
    by (auto simp: add_certs_to_session_def prog_defs split: option.splits)
  have ret: "\<not> missing env ca \<and> \<not> missing env c \<longrightarrow>
      fst (add_certs_to_session env r ca c st) = Inr r"
    by (auto simp: add_certs_to_session_def prog_defs missing_def resolve_def
        split: option.splits)
  have wv: "\<forall>p. ca = Some p \<and> path_exists env (resolve env p) \<longrightarrow>
      verify (heap (snd (add_certs_to_session env r ca c st)) r) = VerifyPath (resolve env p)"
    by (auto simp: add_certs_to_session_def prog_defs resolve_def split: option.splits)
  have wc: "\<forall>q. c = Some q \<and> \<not> missing env ca \<and> path_exists env (resolve env q) \<longrightarrow>
      cert (heap (snd (add_certs_to_session env r ca c st)) r) = Some (resolve env q)"
    by (auto simp: add_certs_to_session_def prog_defs missing_def resolve_def
        split: option.splits)
  have a: "auth (heap (snd (add_certs_to_session env r ca c st)) r) = auth (heap st r)"
    by (auto simp: add_certs_to_session_def prog_defs split: option.splits)
  have cr: "credentials (heap (snd (add_certs_to_session env r ca c st)) r) =
      credentials (heap st r)"
    by (auto simp: add_certs_to_session_def prog_defs split: option.splits)
  have ot: "others (heap (snd (add_certs_to_session env r ca c st)) r) = others (heap st r)"
    by (auto simp: add_certs_to_session_def prog_defs split: option.splits)
  from absent same frame alloc v ct ret wv wc a cr ot show ?thesis by blast
qed

theorem add_certs_in_place_witness:
  "add_certs_to_session example_env 0 None None configured_state = (Inr 0, configured_state)
   \<and> \<not> missing example_env None \<and> \<not> missing example_env (Some ''client.pem'')
   \<and> \<not> missing example_env (Some ''~/certs/ca.pem'')
   \<and> path_exists example_env (resolve example_env ''client.pem'')
   \<and> path_exists example_env (resolve example_env ''~/certs/ca.pem'')
   \<and> fst (add_certs_to_session example_env 0 None (Some ''client.pem'') configured_state) = Inr 0
   \<and> verify (heap (snd (add_certs_to_session example_env 0 None (Some ''client.pem'')
                          configured_state)) 0) = VerifyPath ''/old/ca.pem''
   \<and> cert (heap (snd (add_certs_to_session example_env 0 None (Some ''client.pem'')
                        configured_state)) 0) = Some ''client.pem''
   \<and> auth (heap (snd (add_certs_to_session example_env 0 None (Some ''client.pem'')
                        configured_state)) 0) = AuthPair ''user'' ''secret''
   \<and> (1::nat) \<noteq> 0
   \<and> heap (snd (add_certs_to_session example_env 0 None (Some ''client.pem'')
                   configured_state)) 1 = heap configured_state 1
   \<and> fst (add_certs_to_session example_env 0 (Some ''~/certs/ca.pem'') None configured_state) =
       Inr 0
   \<and> verify (heap (snd (add_certs_to_session example_env 0 (Some ''~/certs/ca.pem'') None
                          configured_state)) 0) = VerifyPath ''/home/u/certs/ca.pem''
   \<and> cert (heap (snd (add_certs_to_session example_env 0 (Some ''~/certs/ca.pem'') None
                        configured_state)) 0) = Some ''/old/client.pem''"
proof -
  have r1: "resolve example_env ''client.pem'' = ''client.pem''"
    by (simp add: example_defs)
  have r2: "resolve example_env ''~/certs/ca.pem'' = ''/home/u/certs/ca.pem''"
    by (simp add: example_defs)
  have e1: "path_exists example_env (resolve example_env ''client.pem'')"
    unfolding r1 by (simp add: example_env_def)
  have e2: "path_exists example_env (resolve example_env ''~/certs/ca.pem'')"
    unfolding r2 by (simp add: example_env_def)
  have m0: "\<not> missing example_env None"
    by (simp add: missing_def)
  have m1: "\<not> missing example_env (Some ''client.pem'')"
    using e1 by (simp add: missing_def)
  have m2: "\<not> missing example_env (Some ''~/certs/ca.pem'')"
    using e2 by (simp add: missing_def)
  have s: "verify (heap configured_state 0) = VerifyPath ''/old/ca.pem''"
    "cert (heap configured_state 0) = Some ''/old/client.pem''"
    "auth (heap configured_state 0) = AuthPair ''user'' ''secret''"
    by (simp_all add: configured_state_def)
  note A = add_certs_in_place [where env = example_env and r = 0 and st = configured_state
      and ca = None and c = "Some ''client.pem''"]
  note B = add_certs_in_place [where env = example_env and r = 0 and st = configured_state
      and ca = "Some ''~/certs/ca.pem''" and c = None]
  from A have a0: "add_certs_to_session example_env 0 None None configured_state =
      (Inr 0, configured_state)" by blast
  from A m0 m1 have a1: "fst (add_certs_to_session example_env 0 None (Some ''client.pem'')
      configured_state) = Inr 0" by blast
  from A have a2: "verify (heap (snd (add_certs_to_session example_env 0 None
      (Some ''client.pem'') configured_state)) 0) = VerifyPath ''/old/ca.pem''"
    by (simp add: s)
  from A m0 e1 have a3: "cert (heap (snd (add_certs_to_session example_env 0 None
      (Some ''client.pem'') configured_state)) 0) = Some ''client.pem''"
    by (simp add: r1)
  from A have a4: "auth (heap (snd (add_certs_to_session example_env 0 None
      (Some ''client.pem'') configured_state)) 0) = AuthPair ''user'' ''secret''"
    by (simp add: s)
  have n: "(1::nat) \<noteq> 0" by simp
  from A n have a5: "heap (snd (add_certs_to_session example_env 0 None (Some ''client.pem'')
      configured_state)) 1 = heap configured_state 1" by blast
  from B m0 m2 have b1: "fst (add_certs_to_session example_env 0 (Some ''~/certs/ca.pem'') None
      configured_state) = Inr 0" by blast
  from B e2 have b2: "verify (heap (snd (add_certs_to_session example_env 0
      (Some ''~/certs/ca.pem'') None configured_state)) 0) = VerifyPath ''/home/u/certs/ca.pem''"
    by (simp add: r2)
  from B have b3: "cert (heap (snd (add_certs_to_session example_env 0
      (Some ''~/certs/ca.pem'') None configured_state)) 0) = Some ''/old/client.pem''"
    by (simp add: s)
  from a0 m0 m1 m2 e1 e2 a1 a2 a3 a4 n a5 b1 b2 b3 show ?thesis by blast
qed

text \<open>
  C5: path resolution expands the user home and environment variables: with home directory
  \<open>/home/u\<close> the path \<open>~/certs/ca.pem\<close> resolves to \<open>/home/u/certs/ca.pem\<close>, with
  \<open>CERTDIR=/etc/certs\<close> the path \<open>$CERTDIR/ca.pem\<close> resolves to \<open>/etc/certs/ca.pem\<close>, and for
  either argument it is the resolved path that is checked for existence and assigned.
\<close>

theorem path_resolution_expands_home_and_variables:
  "(userhome env [] = Some ''/home/u'' \<longrightarrow>
      resolve env ''~/certs/ca.pem'' = ''/home/u/certs/ca.pem'')
   \<and> (environ env ''CERTDIR'' = Some ''/etc/certs'' \<longrightarrow>
      resolve env ''$CERTDIR/ca.pem'' = ''/etc/certs/ca.pem'')
   \<and> (path_exists env (resolve env p) \<longrightarrow>
        add_certs_to_session env r (Some p) None st =
          (Inr r,
           st\<lparr>heap := (heap st)(r := (heap st r)\<lparr>verify := VerifyPath (resolve env p)\<rparr>),
              trace := trace st @ [Call_expandvars p, Call_expanduser (expandvars env p),
                                    Call_exists (resolve env p),
                                    Call_debug (''use CA bundle file: '' @ resolve env p)]\<rparr>))
   \<and> (path_exists env (resolve env p) \<longrightarrow>
        add_certs_to_session env r None (Some p) st =
          (Inr r,
           st\<lparr>heap := (heap st)(r := (heap st r)\<lparr>cert := Some (resolve env p)\<rparr>),
              trace := trace st @ [Call_expandvars p, Call_expanduser (expandvars env p),
                                    Call_exists (resolve env p),
                                    Call_debug (''use certificate file: '' @ resolve env p)]\<rparr>))"
proof -
  have home: "userhome env [] = Some ''/home/u'' \<longrightarrow>
      resolve env ''~/certs/ca.pem'' = ''/home/u/certs/ca.pem''"
    by (simp add: resolve_def expandvars_def expanduser_def not_sep_def rstrip_sep_def
        is_sep_def)
  have var: "environ env ''CERTDIR'' = Some ''/etc/certs'' \<longrightarrow>
      resolve env ''$CERTDIR/ca.pem'' = ''/etc/certs/ca.pem''"
    by (simp add: resolve_def expandvars_def expanduser_def match_var_def is_word_char_def)
  from home var show ?thesis
    by (simp add: add_certs_ca_only add_certs_cert_only)
qed

theorem path_resolution_expands_home_and_variables_witness:
  "userhome example_env [] = Some ''/home/u''
   \<and> resolve example_env ''~/certs/ca.pem'' = ''/home/u/certs/ca.pem''
   \<and> environ example_env ''CERTDIR'' = Some ''/etc/certs''
   \<and> resolve example_env ''$CERTDIR/ca.pem'' = ''/etc/certs/ca.pem''
   \<and> path_exists example_env (resolve example_env ''$CERTDIR/ca.pem'')
   \<and> add_certs_to_session example_env 0 (Some ''$CERTDIR/ca.pem'') None example_state =
       (Inr 0,
        example_state
          \<lparr>heap := (heap example_state)
                     (0 := (heap example_state 0)\<lparr>verify := VerifyPath ''/etc/certs/ca.pem''\<rparr>),
           trace := [Call_expandvars ''$CERTDIR/ca.pem'', Call_expanduser ''/etc/certs/ca.pem'',
                     Call_exists ''/etc/certs/ca.pem'',
                     Call_debug ''use CA bundle file: /etc/certs/ca.pem'']\<rparr>)
   \<and> add_certs_to_session example_env 0 None (Some ''$CERTDIR/ca.pem'') example_state =
       (Inr 0,
        example_state
          \<lparr>heap := (heap example_state)
                     (0 := (heap example_state 0)\<lparr>cert := Some ''/etc/certs/ca.pem''\<rparr>),
           trace := [Call_expandvars ''$CERTDIR/ca.pem'', Call_expanduser ''/etc/certs/ca.pem'',
                     Call_exists ''/etc/certs/ca.pem'',
                     Call_debug ''use certificate file: /etc/certs/ca.pem'']\<rparr>)"
proof -
  have h1: "userhome example_env [] = Some ''/home/u''"
    by (simp add: userhome_def example_env_def)
  have h2: "environ example_env ''CERTDIR'' = Some ''/etc/certs''"
    by (simp add: example_env_def)
  have e: "expandvars example_env ''$CERTDIR/ca.pem'' = ''/etc/certs/ca.pem''"
    by (simp add: example_defs)
  have t: "trace example_state = []" by (simp add: example_state_def)
  note inst = path_resolution_expands_home_and_variables
    [where env = example_env and p = "''$CERTDIR/ca.pem''" and r = 0 and st = example_state]
  from inst h2 have r: "resolve example_env ''$CERTDIR/ca.pem'' = ''/etc/certs/ca.pem''"
    by blast
  have h3: "path_exists example_env (resolve example_env ''$CERTDIR/ca.pem'')"
    unfolding r by (simp add: example_env_def)
  from inst h1 have a: "resolve example_env ''~/certs/ca.pem'' = ''/home/u/certs/ca.pem''"
    by blast
  from inst h3 have b: "add_certs_to_session example_env 0 (Some ''$CERTDIR/ca.pem'') None
      example_state =
    (Inr 0,
     example_state
       \<lparr>heap := (heap example_state)
                  (0 := (heap example_state 0)\<lparr>verify := VerifyPath ''/etc/certs/ca.pem''\<rparr>),
        trace := [Call_expandvars ''$CERTDIR/ca.pem'', Call_expanduser ''/etc/certs/ca.pem'',
                  Call_exists ''/etc/certs/ca.pem'',
                  Call_debug ''use CA bundle file: /etc/certs/ca.pem'']\<rparr>)"
    by (simp add: r e t)
  from inst h3 have c: "add_certs_to_session example_env 0 None (Some ''$CERTDIR/ca.pem'')
      example_state =
    (Inr 0,
     example_state
       \<lparr>heap := (heap example_state)
                  (0 := (heap example_state 0)\<lparr>cert := Some ''/etc/certs/ca.pem''\<rparr>),
        trace := [Call_expandvars ''$CERTDIR/ca.pem'', Call_expanduser ''/etc/certs/ca.pem'',
                  Call_exists ''/etc/certs/ca.pem'',
                  Call_debug ''use certificate file: /etc/certs/ca.pem'']\<rparr>)"
    by (simp add: r e t)
  from h1 a h2 r h3 b c show ?thesis by blast
qed

text \<open>
  C10: the failure of the certificate check is not atomic. When the CA bundle path resolves
  to an existing file and the certificate path does not, the call raises the certificate
  error, and the store it leaves behind has the \<open>verify\<close> attribute of the session already
  set to the expanded CA bundle path.
\<close>

theorem certificate_failure_keeps_verify:
  assumes "path_exists env (resolve env p)" and "\<not> path_exists env (resolve env q)"
  shows "add_certs_to_session env r (Some p) (Some q) st =
    (Inl (OSError (''Certificate file does not exist: '' @ resolve env q)),
     st\<lparr>heap := (heap st)(r := (heap st r)\<lparr>verify := VerifyPath (resolve env p)\<rparr>),
        trace := trace st @ [Call_expandvars p, Call_expanduser (expandvars env p),
                              Call_exists (resolve env p),
                              Call_debug (''use CA bundle file: '' @ resolve env p),
                              Call_expandvars q, Call_expanduser (expandvars env q),
                              Call_exists (resolve env q)]\<rparr>)
   \<and> verify (heap (snd (add_certs_to_session env r (Some p) (Some q) st)) r) =
       VerifyPath (resolve env p)"
  using assms by (simp add: add_certs_cert_missing)

theorem certificate_failure_keeps_verify_witness:
  "path_exists example_env (resolve example_env ''/etc/certs/ca.pem'')
   \<and> \<not> path_exists example_env (resolve example_env ''missing.pem'')
   \<and> fst (add_certs_to_session example_env 0 (Some ''/etc/certs/ca.pem'') (Some ''missing.pem'')
           example_state) = Inl (OSError ''Certificate file does not exist: missing.pem'')
   \<and> verify (heap example_state 0) = VerifyBool True
   \<and> verify (heap (snd (add_certs_to_session example_env 0 (Some ''/etc/certs/ca.pem'')
                          (Some ''missing.pem'') example_state)) 0) =
       VerifyPath ''/etc/certs/ca.pem''"
proof -
  have r1: "resolve example_env ''/etc/certs/ca.pem'' = ''/etc/certs/ca.pem''"
    by (simp add: example_defs)
  have r2: "resolve example_env ''missing.pem'' = ''missing.pem''"
    by (simp add: example_defs)
  have h1: "path_exists example_env (resolve example_env ''/etc/certs/ca.pem'')"
    unfolding r1 by (simp add: example_env_def)
  have h2: "\<not> path_exists example_env (resolve example_env ''missing.pem'')"
    unfolding r2 by (simp add: example_env_def)
  have v: "verify (heap example_state 0) = VerifyBool True"
    by (simp add: example_state_def Session_init_def)
  show ?thesis
    using h1 h2 v certificate_failure_keeps_verify [OF h1 h2, of 0 example_state]
    by (simp add: r1 r2)
qed

subsection \<open>Session construction\<close>

text \<open>
  C6: for every username and password the call returns, without raising and without any
  check of the credentials, the reference of a session allocated by the call, whose \<open>auth\<close>
  attribute is exactly the pair of the two strings; the other attributes are the defaults
  of the library, and the only collaborator calls are the log line and the constructor.
\<close>

theorem user_pass_session:
  "create_session_from_user_pass env u p st =
     (Inr (next_ref st),
      st\<lparr>heap := (heap st)(next_ref st :=
                 \<lparr>auth = AuthPair u p, verify = VerifyBool True, cert = None,
                  credentials = None, others = session_others env\<rparr>),
         next_ref := Suc (next_ref st),
         trace := trace st @ [Call_debug ''initialize HTTP session'',
                               Call_Session (next_ref st)]\<rparr>)"
  by (simp add: create_session_from_user_pass_def prog_defs Session_init_def)

text \<open>
  C7: for every authentication value, \<open>None\<close> included, the call returns, without raising,
  the reference of a session allocated by the call whose \<open>auth\<close> attribute is that value as
  given; with \<open>None\<close> the session carries no authentication.
\<close>

theorem auth_session:
  "create_session_from_auth env a st =
     (Inr (next_ref st),
      st\<lparr>heap := (heap st)(next_ref st :=
                 \<lparr>auth = a, verify = VerifyBool True, cert = None,
                  credentials = None, others = session_others env\<rparr>),
         next_ref := Suc (next_ref st),
         trace := trace st @ [Call_debug ''initialize HTTP session'',
                               Call_Session (next_ref st)]\<rparr>)
   \<and> auth (heap (snd (create_session_from_auth env AuthNone st)) (next_ref st)) = AuthNone"
  by (simp add: create_session_from_auth_def prog_defs Session_init_def)

subsection \<open>Google Cloud credentials\<close>

text \<open>
  C8: when \<open>google.auth.transport.requests\<close> cannot be imported, the call raises
  \<open>ImportError\<close>, whether credentials are given or not, before anything else is called. The
  error is neither a credentials error nor an \<open>OSError\<close>, and its message names the extra
  to install, \<open>dicomweb-client[gcp]\<close>.
\<close>

theorem gcp_unavailable_raises_ImportError:
  assumes "\<not> importable env ''google.auth.transport.requests''"
  shows "create_session_from_gcp_credentials env google_credentials st =
           (Inl (ImportError gcp_import_message),
            st\<lparr>trace := trace st @ [Call_import ''google.auth.transport.requests'']\<rparr>)
         \<and> fst (create_session_from_gcp_credentials env google_credentials st) \<noteq>
             Inl (DefaultCredentialsError m)
         \<and> fst (create_session_from_gcp_credentials env google_credentials st) \<noteq>
             Inl (OSError m)
         \<and> sublist ''dicomweb-client[gcp]'' gcp_import_message"
proof -
  have r: "create_session_from_gcp_credentials env google_credentials st =
           (Inl (ImportError gcp_import_message),
            st\<lparr>trace := trace st @ [Call_import ''google.auth.transport.requests'']\<rparr>)"
    using assms by (simp add: gcp_defs prog_defs)
  have "gcp_import_message =
      (''The dicomweb-client package needs to be installed with the '' @
       [CHR 0x22] @ ''gcp'' @ [CHR 0x22] @
       '' extra requirements to support interaction with the '' @
       ''Google Cloud Healthcare API: pip install '') @ ''dicomweb-client[gcp]'' @ []"
    by (simp add: gcp_import_message_def)
  then have s: "sublist ''dicomweb-client[gcp]'' gcp_import_message"
    unfolding sublist_def by blast
  from r s show ?thesis by simp
qed

theorem gcp_unavailable_raises_ImportError_witness:
  "\<not> importable (example_env\<lparr>importable := (\<lambda>m. False)\<rparr>) ''google.auth.transport.requests''
   \<and> fst (create_session_from_gcp_credentials (example_env\<lparr>importable := (\<lambda>m. False)\<rparr>)
           (Some ''given'') example_state) = Inl (ImportError gcp_import_message)
   \<and> fst (create_session_from_gcp_credentials (example_env\<lparr>importable := (\<lambda>m. False)\<rparr>)
           None example_state) = Inl (ImportError gcp_import_message)"
proof -
  have h: "\<not> importable (example_env\<lparr>importable := (\<lambda>m. False)\<rparr>)
      ''google.auth.transport.requests''"
    by simp
  show ?thesis
    using h
      gcp_unavailable_raises_ImportError [OF h, of "Some ''given''" example_state]
      gcp_unavailable_raises_ImportError [OF h, of None example_state]
    by simp
qed

text \<open>
  C9, as stated, fails: without credentials the call does not always return a session. With
  the Google modules installed and no ambient credentials to discover,
  \<open>google.auth.default\<close> raises, the exception is not an \<open>ImportError\<close> and passes through, and
  no session is constructed.
\<close>

theorem gcp_discovery_failure_counterexample:
  "importable no_credentials_env ''google.auth.transport.requests''
   \<and> importable no_credentials_env ''google.auth''
   \<and> create_session_from_gcp_credentials no_credentials_env None example_state =
       (Inl (DefaultCredentialsError ''no default credentials''),
        example_state\<lparr>trace := [Call_import ''google.auth.transport.requests'',
                                 Call_import ''google.auth'',
                                 Call_auth_default
                                   [''https://www.googleapis.com/auth/cloud-platform'']]\<rparr>)"
  by (simp add: gcp_defs prog_defs no_credentials_env_def example_env_def example_state_def)

text \<open>
  C9, amended: with the Google modules installed, given credentials are wrapped as they are
  in a new authorized session and \<open>google.auth.default\<close> is not called. Without credentials,
  \<open>google.auth.default\<close> is called with the cloud-platform scope alone; when it returns
  credentials, they are the ones the new authorized session wraps; when it raises, no
  session is constructed and the exception is raised to the caller (an \<open>ImportError\<close> as the
  \<open>ImportError\<close> of the missing extra, any other exception as it is).
\<close>

theorem gcp_session_wraps_credentials:
  "(importable env ''google.auth.transport.requests'' \<longrightarrow>
      create_session_from_gcp_credentials env (Some C) st =
        (Inr (next_ref st),
         st\<lparr>heap := (heap st)(next_ref st :=
                    \<lparr>auth = AuthNone, verify = VerifyBool True, cert = None,
                     credentials = Some C, others = authorized_others env\<rparr>),
            next_ref := Suc (next_ref st),
            trace := trace st @ [Call_import ''google.auth.transport.requests'',
                                  Call_debug ''initialize Google AuthorizedSession'',
                                  Call_AuthorizedSession C (next_ref st)]\<rparr>))
   \<and> (importable env ''google.auth.transport.requests'' \<and> importable env ''google.auth''
        \<and> auth_default env [''https://www.googleapis.com/auth/cloud-platform''] =
            Inr (D, project) \<longrightarrow>
      create_session_from_gcp_credentials env None st =
        (Inr (next_ref st),
         st\<lparr>heap := (heap st)(next_ref st :=
                    \<lparr>auth = AuthNone, verify = VerifyBool True, cert = None,
                     credentials = Some D, others = authorized_others env\<rparr>),
            next_ref := Suc (next_ref st),
            trace := trace st @ [Call_import ''google.auth.transport.requests'',
                                  Call_import ''google.auth'',
                                  Call_auth_default
                                    [''https://www.googleapis.com/auth/cloud-platform''],
                                  Call_debug ''initialize Google AuthorizedSession'',
                                  Call_AuthorizedSession D (next_ref st)]\<rparr>))
   \<and> (importable env ''google.auth.transport.requests'' \<and> importable env ''google.auth''
        \<and> auth_default env [''https://www.googleapis.com/auth/cloud-platform''] = Inl e \<longrightarrow>
      create_session_from_gcp_credentials env None st =
        (Inl (case e of ImportError m \<Rightarrow> ImportError gcp_import_message | _ \<Rightarrow> e),
         st\<lparr>trace := trace st @ [Call_import ''google.auth.transport.requests'',
                                  Call_import ''google.auth'',
                                  Call_auth_default
                                    [''https://www.googleapis.com/auth/cloud-platform'']]\<rparr>))"
proof -
  have given: "importable env ''google.auth.transport.requests'' \<longrightarrow>
      create_session_from_gcp_credentials env (Some C) st =
        (Inr (next_ref st),
         st\<lparr>heap := (heap st)(next_ref st :=
                    \<lparr>auth = AuthNone, verify = VerifyBool True, cert = None,
                     credentials = Some C, others = authorized_others env\<rparr>),
            next_ref := Suc (next_ref st),
            trace := trace st @ [Call_import ''google.auth.transport.requests'',
                                  Call_debug ''initialize Google AuthorizedSession'',
                                  Call_AuthorizedSession C (next_ref st)]\<rparr>)"
    by (simp add: gcp_defs prog_defs)
  have found: "importable env ''google.auth.transport.requests'' \<and> importable env ''google.auth''
        \<and> auth_default env [''https://www.googleapis.com/auth/cloud-platform''] =
            Inr (D, project) \<longrightarrow>
      create_session_from_gcp_credentials env None st =
        (Inr (next_ref st),
         st\<lparr>heap := (heap st)(next_ref st :=
                    \<lparr>auth = AuthNone, verify = VerifyBool True, cert = None,
                     credentials = Some D, others = authorized_others env\<rparr>),
            next_ref := Suc (next_ref st),
            trace := trace st @ [Call_import ''google.auth.transport.requests'',
                                  Call_import ''google.auth'',
                                  Call_auth_default
                                    [''https://www.googleapis.com/auth/cloud-platform''],
                                  Call_debug ''initialize Google AuthorizedSession'',
                                  Call_AuthorizedSession D (next_ref st)]\<rparr>)"
    by (simp add: gcp_defs prog_defs)
  have failed: "importable env ''google.auth.transport.requests'' \<and> importable env ''google.auth''
        \<and> auth_default env [''https://www.googleapis.com/auth/cloud-platform''] = Inl e \<longrightarrow>
      create_session_from_gcp_credentials env None st =
        (Inl (case e of ImportError m \<Rightarrow> ImportError gcp_import_message | _ \<Rightarrow> e),
         st\<lparr>trace := trace st @ [Call_import ''google.auth.transport.requests'',
                                  Call_import ''google.auth'',
                                  Call_auth_default
                                    [''https://www.googleapis.com/auth/cloud-platform'']]\<rparr>)"
    by (cases e) (simp_all add: gcp_defs prog_defs)
  from given found failed show ?thesis by blast
qed

theorem gcp_session_wraps_credentials_witness:
  "importable example_env ''google.auth.transport.requests''
   \<and> importable example_env ''google.auth''
   \<and> auth_default example_env [''https://www.googleapis.com/auth/cloud-platform''] =
        Inr (''ambient'', Some ''project'')
   \<and> fst (create_session_from_gcp_credentials example_env (Some ''given'') example_state) = Inr 1
   \<and> credentials (heap (snd (create_session_from_gcp_credentials example_env (Some ''given'')
                               example_state)) 1) = Some ''given''
   \<and> trace (snd (create_session_from_gcp_credentials example_env (Some ''given'')
                   example_state)) =
        [Call_import ''google.auth.transport.requests'',
         Call_debug ''initialize Google AuthorizedSession'',
         Call_AuthorizedSession ''given'' 1]
   \<and> fst (create_session_from_gcp_credentials example_env None example_state) = Inr 1
   \<and> credentials (heap (snd (create_session_from_gcp_credentials example_env None
                               example_state)) 1) = Some ''ambient''
   \<and> importable no_credentials_env ''google.auth.transport.requests''
   \<and> importable no_credentials_env ''google.auth''
   \<and> auth_default no_credentials_env [''https://www.googleapis.com/auth/cloud-platform''] =
        Inl (DefaultCredentialsError ''no default credentials'')
   \<and> fst (create_session_from_gcp_credentials no_credentials_env None example_state) =
        Inl (DefaultCredentialsError ''no default credentials'')"
proof -
  have h1: "importable example_env ''google.auth.transport.requests''"
    by (simp add: example_env_def)
  have h2: "importable example_env ''google.auth''"
    by (simp add: example_env_def)
  have h3: "auth_default example_env [''https://www.googleapis.com/auth/cloud-platform''] =
      Inr (''ambient'', Some ''project'')"
    by (simp add: example_env_def)
  have k1: "importable no_credentials_env ''google.auth.transport.requests''"
    by (simp add: no_credentials_env_def example_env_def)
  have k2: "importable no_credentials_env ''google.auth''"
    by (simp add: no_credentials_env_def example_env_def)
  have k3: "auth_default no_credentials_env
      [''https://www.googleapis.com/auth/cloud-platform''] =
      Inl (DefaultCredentialsError ''no default credentials'')"
    by (simp add: no_credentials_env_def)
  have n: "next_ref example_state = 1" and t: "trace example_state = []"
    by (simp_all add: example_state_def)
  note A = gcp_session_wraps_credentials [where env = example_env and C = "''given''"
        and D = "''ambient''" and project = "Some ''project''" and st = example_state]
  note B = gcp_session_wraps_credentials [where env = no_credentials_env
        and e = "DefaultCredentialsError ''no default credentials''" and st = example_state]
  from B k1 k2 k3 have b: "fst (create_session_from_gcp_credentials no_credentials_env None
      example_state) = Inl (DefaultCredentialsError ''no default credentials'')"
    by simp
  show ?thesis
    using h1 h2 h3 k1 k2 k3 b A by (simp add: n t)
qed

end
